theory Spec2Isabelle
  imports Main
begin

section \<open>Data model\<close>

text \<open>
  Times are milliseconds since the epoch, as \<open>Date.now()\<close> gives them. Object ids,
  roles, actions, severities and statuses are the strings the JavaScript code passes.
\<close>

text \<open>
  A signed session token in decoded form: the payload \<open>{ userId }\<close>, the issued-at and
  expiry claims in seconds, and the signature over them.
\<close>

datatype jwt = Jwt (jwt_userId: string) (jwt_iat: nat) (jwt_exp: nat) (jwt_sig: string)

text \<open>JSON values of response bodies and of the \<open>details\<close> payload of an audit event.\<close>

datatype jval =
    JStr string
  | JNum nat
  | JBool bool
  | JNull
  | JArr "jval list"
  | JTok jwt
  | JObj "(string \<times> jval) list"

text \<open>
  The fields of the User document that the routes read or write. \<open>password\<close> holds the
  stored hash; a query with \<open>select('-password')\<close> returns the document with the field
  left out, modelled as the empty string.
\<close>

record user =
  uid :: string
  email :: string
  password :: string
  firstName :: string
  lastName :: string
  role :: string
  isActive :: bool
  isEmailVerified :: bool
  loginAttempts :: nat
  lockUntil :: "nat option"
  lastLogin :: "nat option"
  emailVerificationToken :: "string option"
  passwordResetToken :: "string option"
  passwordResetExpires :: "nat option"

text \<open>The AuditLog document (models/AuditLog.js, \<open>auditLogSchema\<close>).\<close>

record audit_event =
  actor :: string
  action :: string
  resource :: string
  resourceId :: string
  details :: "(string \<times> jval) list"
  ipAddress :: string
  userAgent :: string
  timestamp :: "nat option"
  severity :: string
  status :: string

record db =
  users :: "user list"
  auditLogs :: "audit_event list"

text \<open>
  One piece of the \<open>Authorization\<close> header after \<open>split(' ')\<close>: either plain text or
  the compact serialisation of a token, kept in decoded form.
\<close>

datatype piece = Plain string | Compact jwt

record request =
  authorization :: "piece list option"
  req_user :: "user option"
  req_resource :: "(string \<times> string) list option"
  params_id :: "string option"
  originalUrl :: string
  http_method :: string
  ip :: string
  user_agent :: string

record response =
  http_status :: nat
  body :: "(string \<times> jval) list"

datatype outcome = Respond response | Next request

text \<open>
  What the environment and the libraries supply: the signing secret and token lifetime
  (\<open>process.env\<close>), the MAC of the JWT library, the password hash and comparison of the
  User model, the lockout duration, the role-to-permission table, the ObjectId format
  check of the validators, and the \<open>fullName\<close> virtual.
\<close>

record deps =
  JWT_SECRET :: string
  JWT_EXPIRES_IN :: "nat option"
  hmac :: "string \<Rightarrow> string \<times> nat \<times> nat \<Rightarrow> string"
  hashPassword :: "string \<Rightarrow> string"
  checkPassword :: "string \<Rightarrow> string \<Rightarrow> bool"
  lockTime :: nat
  rolePermissions :: "string \<Rightarrow> string list"
  validObjectId :: "string \<Rightarrow> bool"
  fullName :: "user \<Rightarrow> string"

definition json :: "nat \<Rightarrow> (string \<times> jval) list \<Rightarrow> response" where
  "json st b = \<lparr>http_status = st, body = b\<rparr>"

definition error_body :: "string \<Rightarrow> string \<Rightarrow> (string \<times> jval) list" where
  "error_body m c = [(''message'', JStr m), (''code'', JStr c)]"

section \<open>Audit Recorder (models/AuditLog.js)\<close>

definition action_enum :: "string list" where
  "action_enum =
    [''LOGIN'', ''LOGOUT'', ''REGISTER'', ''PASSWORD_RESET'', ''EMAIL_VERIFY'',
     ''USER_CREATE'', ''USER_UPDATE'', ''USER_DELETE'', ''USER_ROLE_CHANGE'',
     ''COURSE_CREATE'', ''COURSE_UPDATE'', ''COURSE_DELETE'', ''COURSE_PUBLISH'',
     ''ASSIGNMENT_CREATE'', ''ASSIGNMENT_UPDATE'', ''ASSIGNMENT_DELETE'',
     ''GRADE_CREATE'', ''GRADE_UPDATE'', ''ENROLLMENT_CREATE'', ''ENROLLMENT_DELETE'',
     ''SYSTEM_CONFIG_UPDATE'', ''BACKUP_CREATE'', ''BACKUP_RESTORE'']"

definition severity_enum :: "string list" where
  "severity_enum = [''LOW'', ''MEDIUM'', ''HIGH'', ''CRITICAL'']"

definition status_enum :: "string list" where
  "status_enum = [''SUCCESS'', ''FAILURE'', ''WARNING'']"

text \<open>
  Schema validation run by \<open>create\<close>: the required string paths are non-empty and
  each enumerated path holds one of its listed values. The two required ObjectId paths
  (\<open>user\<close>, \<open>resourceId\<close>) are always supplied by the callers.
\<close>

definition validate_log :: "audit_event \<Rightarrow> bool" where
  "validate_log e \<longleftrightarrow>
     action e \<in> set action_enum \<and> resource e \<noteq> [] \<and>
     severity e \<in> set severity_enum \<and> status e \<in> set status_enum"

datatype error = ValidationError | CastError

text \<open>
  \<open>createLog(logData)\<close> is \<open>this.create(logData)\<close>: the promise resolves with the
  document appended (the timestamp defaulting to now), or rejects on a validation error
  and stores nothing.
\<close>

definition createLog :: "nat \<Rightarrow> audit_event \<Rightarrow> audit_event list \<Rightarrow> error + audit_event list" where
  "createLog now e logs =
     (if validate_log e
      then Inr (logs @ [e\<lparr>timestamp := (case timestamp e of None \<Rightarrow> Some now | Some t \<Rightarrow> Some t)\<rparr>])
      else Inl ValidationError)"

text \<open>
  A call of \<open>createLog\<close> whose promise is not awaited: a rejection reaches nobody, the
  caller goes on either way.
\<close>

definition createLog_detached :: "nat \<Rightarrow> audit_event \<Rightarrow> audit_event list \<Rightarrow> audit_event list" where
  "createLog_detached now e logs = (case createLog now e logs of Inl _ \<Rightarrow> logs | Inr logs' \<Rightarrow> logs')"

section \<open>The User model\<close>

text \<open>
  Modelled from the spec: the \<open>isLocked\<close> virtual of models/User.js, which is not among
  the sources. The spec: an account is locked while its lockout-until timestamp is in the
  future.
\<close>

definition isLocked :: "nat \<Rightarrow> user \<Rightarrow> bool" where
  "isLocked now u = (case lockUntil u of None \<Rightarrow> False | Some t \<Rightarrow> now < t)"

text \<open>
  Modelled from the spec: \<open>hasPermission\<close> of models/User.js. The spec: each role maps to a
  fixed allow-list of permission strings or a wildcard meaning all; the request is allowed
  iff the role's permission set contains the permission or the wildcard. The table itself
  is a parameter.
\<close>

definition hasPermission :: "deps \<Rightarrow> user \<Rightarrow> string \<Rightarrow> bool" where
  "hasPermission D u p \<longleftrightarrow> p \<in> set (rolePermissions D (role u)) \<or> ''*'' \<in> set (rolePermissions D (role u))"

definition findOne :: "(user \<Rightarrow> bool) \<Rightarrow> user list \<Rightarrow> user option" where
  "findOne P us = find P us"

text \<open>
  An \<open>_id\<close> is an ObjectId; \<open>uid\<close> holds its \<open>toString()\<close>, 24 lower-case
  hexadecimal digits. A query by id casts the string it is given to an ObjectId first: 24
  hexadecimal digits in either case denote the ObjectId that prints as their lower-case
  form, and a string that does not cast makes the query reject with \<open>CastError\<close>.
  Other forms that a driver may accept are left out of the model and count as cast
  failures.
\<close>

definition hex_digit :: "char \<Rightarrow> bool" where
  "hex_digit c \<longleftrightarrow> c \<in> set ''0123456789abcdefABCDEF''"

definition lower_hex :: "char \<Rightarrow> char" where
  "lower_hex c =
     (if c = CHR ''A'' then CHR ''a'' else if c = CHR ''B'' then CHR ''b''
      else if c = CHR ''C'' then CHR ''c'' else if c = CHR ''D'' then CHR ''d''
      else if c = CHR ''E'' then CHR ''e'' else if c = CHR ''F'' then CHR ''f'' else c)"

definition castObjectId :: "string \<Rightarrow> string option" where
  "castObjectId s = (if length s = 24 \<and> list_all hex_digit s then Some (map lower_hex s) else None)"

definition findById :: "string \<Rightarrow> user list \<Rightarrow> error + user option" where
  "findById i us =
     (case castObjectId i of
        None \<Rightarrow> Inl CastError
      | Some k \<Rightarrow> Inr (find (\<lambda>u. uid u = k) us))"

text \<open>\<open>user.save()\<close> of a fetched document writes it back under its \<open>_id\<close>.\<close>

definition save :: "user \<Rightarrow> user list \<Rightarrow> user list" where
  "save u us = map (\<lambda>v. if uid v = uid u then u else v) us"

section \<open>Authorization Guard (middleware/auth.js)\<close>

text \<open>
  Each guard returns its outcome together with the audit events it hands to
  \<open>AuditLog.createLog\<close>; the guards do not await those calls.
\<close>

definition unauthorized_event :: "request \<Rightarrow> user \<Rightarrow> (string \<times> jval) \<Rightarrow> audit_event" where
  "unauthorized_event req u required =
     \<lparr>actor = uid u, action = ''UNAUTHORIZED_ACCESS'', resource = ''System'', resourceId = uid u,
      details = [required, (''userRole'', JStr (role u)),
                 (''endpoint'', JStr (originalUrl req)), (''method'', JStr (http_method req))],
      ipAddress = ip req, userAgent = user_agent req, timestamp = None,
      severity = ''HIGH'', status = ''FAILURE''\<rparr>"

definition requireRole :: "string list \<Rightarrow> request \<Rightarrow> outcome \<times> audit_event list" where
  "requireRole roles req =
     (case req_user req of
        None \<Rightarrow> (Respond (json 401 (error_body ''Authentication required'' ''AUTH_REQUIRED'')), [])
      | Some u \<Rightarrow>
          if role u \<notin> set roles
          then (Respond (json 403
                  [(''message'', JStr ''Insufficient permissions''),
                   (''code'', JStr ''INSUFFICIENT_PERMISSIONS''),
                   (''required'', JArr (map JStr roles)), (''current'', JStr (role u))]),
                [unauthorized_event req u (''requiredRoles'', JArr (map JStr roles))])
          else (Next req, []))"

definition requirePermission :: "deps \<Rightarrow> string \<Rightarrow> request \<Rightarrow> outcome \<times> audit_event list" where
  "requirePermission D permission req =
     (case req_user req of
        None \<Rightarrow> (Respond (json 401 (error_body ''Authentication required'' ''AUTH_REQUIRED'')), [])
      | Some u \<Rightarrow>
          if \<not> hasPermission D u permission
          then (Respond (json 403
                  [(''message'', JStr ''Insufficient permissions''),
                   (''code'', JStr ''INSUFFICIENT_PERMISSIONS''),
                   (''required'', JStr permission), (''role'', JStr (role u))]),
                [unauthorized_event req u (''requiredPermission'', JStr permission)])
          else (Next req, []))"

text \<open>
  \<open>req.resource && req.resource[resourceField]\<close>: the owner reference when a resource is
  attached and the field holds a truthy value, nothing otherwise.
\<close>

definition resource_owner :: "string \<Rightarrow> request \<Rightarrow> string option" where
  "resource_owner resourceField req =
     (case req_resource req of
        None \<Rightarrow> None
      | Some r \<Rightarrow> (case map_of r resourceField of
                     None \<Rightarrow> None
                   | Some owner \<Rightarrow> if owner = [] then None else Some owner))"

definition requireOwnershipOrRole :: "string \<Rightarrow> string list \<Rightarrow> request \<Rightarrow> outcome \<times> audit_event list" where
  "requireOwnershipOrRole resourceField allowedRoles req =
     (case req_user req of
        None \<Rightarrow> (Respond (json 401 (error_body ''Authentication required'' ''AUTH_REQUIRED'')), [])
      | Some u \<Rightarrow>
          if role u \<in> set allowedRoles then (Next req, [])
          else (case params_id req of
                  None \<Rightarrow> (Respond (json 400 (error_body ''Resource ID required'' ''RESOURCE_ID_REQUIRED'')), [])
                | Some resId \<Rightarrow>
                    if resId = []
                    then (Respond (json 400 (error_body ''Resource ID required'' ''RESOURCE_ID_REQUIRED'')), [])
                    else (case resource_owner resourceField req of
                            None \<Rightarrow> (Next req, [])
                          | Some ownerId \<Rightarrow>
                              if ownerId \<noteq> uid u
                              then (Respond (json 403
                                      (error_body ''Access denied - not resource owner'' ''NOT_RESOURCE_OWNER'')), [])
                              else (Next req, []))))"

text \<open>
  Running a guard against the store: the response or the pass-through, and the audit log
  after the guard's un-awaited \<open>createLog\<close> calls have settled.
\<close>

definition run_guard :: "nat \<Rightarrow> outcome \<times> audit_event list \<Rightarrow> db \<Rightarrow> outcome \<times> db" where
  "run_guard now g d = (fst g, d\<lparr>auditLogs := foldl (\<lambda>logs e. createLog_detached now e logs) (auditLogs d) (snd g)\<rparr>)"

section \<open>Token Service\<close>

text \<open>
  \<open>jwt.sign\<close> and \<open>jwt.verify\<close> of the jsonwebtoken library: signing stamps the
  issued-at time in whole seconds, adds the lifetime and signs the claims with the secret;
  verifying rejects a malformed token or a wrong signature with \<open>JsonWebTokenError\<close> and
  a token whose expiry is not after the clock with \<open>TokenExpiredError\<close>.
\<close>

datatype jwt_error = JsonWebTokenError | TokenExpiredError

definition jwt_sign :: "deps \<Rightarrow> nat \<Rightarrow> string \<Rightarrow> nat \<Rightarrow> jwt" where
  "jwt_sign D now userId ttl =
     (let iat = now div 1000; ex = iat + ttl
      in Jwt userId iat ex (hmac D (JWT_SECRET D) (userId, iat, ex)))"

definition jwt_verify :: "deps \<Rightarrow> nat \<Rightarrow> piece \<Rightarrow> jwt_error + string" where
  "jwt_verify D now p =
     (case p of
        Plain _ \<Rightarrow> Inl JsonWebTokenError
      | Compact t \<Rightarrow>
          if jwt_sig t \<noteq> hmac D (JWT_SECRET D) (jwt_userId t, jwt_iat t, jwt_exp t)
          then Inl JsonWebTokenError
          else if jwt_exp t \<le> now div 1000 then Inl TokenExpiredError
          else Inr (jwt_userId t))"

text \<open>\<open>process.env.JWT_EXPIRES_IN || '7d'\<close>, in seconds.\<close>

definition expiresIn :: "deps \<Rightarrow> nat" where
  "expiresIn D = (case JWT_EXPIRES_IN D of None \<Rightarrow> 7 * 24 * 60 * 60 | Some n \<Rightarrow> n)"

definition generateToken :: "deps \<Rightarrow> nat \<Rightarrow> string \<Rightarrow> jwt" where
  "generateToken D now userId = jwt_sign D now userId (expiresIn D)"

text \<open>
  \<open>authHeader && authHeader.split(' ')[1]\<close>, with \<open>None\<close> for a falsy result. In
  \<open>authenticateToken\<close> the exceptions of the model are the two named JWT errors and the
  \<open>CastError\<close> of the lookup, which has neither name and ends in the final 500 branch of
  the \<open>catch\<close>.
\<close>

definition bearer_token :: "request \<Rightarrow> piece option" where
  "bearer_token req =
     (case authorization req of
        None \<Rightarrow> None
      | Some ps \<Rightarrow>
          if 1 < length ps
          then (case ps ! 1 of Plain s \<Rightarrow> if s = [] then None else Some (Plain s) | Compact t \<Rightarrow> Some (Compact t))
          else None)"

definition authenticateToken :: "deps \<Rightarrow> nat \<Rightarrow> request \<Rightarrow> db \<Rightarrow> outcome" where
  "authenticateToken D now req d =
     (case bearer_token req of
        None \<Rightarrow> Respond (json 401 (error_body ''Access token required'' ''TOKEN_REQUIRED''))
      | Some token \<Rightarrow>
          (case jwt_verify D now token of
             Inl JsonWebTokenError \<Rightarrow> Respond (json 401 (error_body ''Invalid token'' ''INVALID_TOKEN''))
           | Inl TokenExpiredError \<Rightarrow> Respond (json 401 (error_body ''Token expired'' ''TOKEN_EXPIRED''))
           | Inr userId \<Rightarrow>
               (case findById userId (users d) of
                  Inl _ \<Rightarrow> Respond (json 500 (error_body ''Authentication failed'' ''AUTH_ERROR''))
                | Inr None \<Rightarrow> Respond (json 401 (error_body ''Invalid token - user not found'' ''INVALID_TOKEN''))
                | Inr (Some u) \<Rightarrow>
                    if \<not> isActive u
                    then Respond (json 401 (error_body ''Account is deactivated'' ''ACCOUNT_DEACTIVATED''))
                    else if isLocked now u
                    then Respond (json 401 (error_body ''Account is temporarily locked'' ''ACCOUNT_LOCKED''))
                    else Next (req\<lparr>req_user := Some (u\<lparr>password := []\<rparr>)\<rparr>))))"

section \<open>Authentication Flow (routes/auth.js)\<close>

text \<open>
  The handlers are modelled from the point where the request validators have passed. Each
  takes the clock, the request, the body fields and the store, and returns the response
  and the store afterwards. \<open>mail to template\<close> is the Notifier: whether
  \<open>sendEmail(to, template, data)\<close> resolves (\<open>True\<close>) or throws. Reads and writes of
  the user collection succeed; the outer \<open>catch\<close> of a handler (the generic 500) is
  reached when an awaited \<open>createLog\<close> rejects.
\<close>

definition log_data ::
  "request \<Rightarrow> string \<Rightarrow> string \<Rightarrow> string \<Rightarrow> (string \<times> jval) list \<Rightarrow> string \<Rightarrow> string \<Rightarrow> audit_event" where
  "log_data req who act resId det sev st =
     \<lparr>actor = who, action = act, resource = ''User'', resourceId = resId, details = det,
      ipAddress = ip req, userAgent = user_agent req, timestamp = None,
      severity = sev, status = st\<rparr>"

definition profile :: "deps \<Rightarrow> user \<Rightarrow> (string \<times> jval) list" where
  "profile D u =
     [(''id'', JStr (uid u)), (''email'', JStr (email u)), (''firstName'', JStr (firstName u)),
      (''lastName'', JStr (lastName u)), (''fullName'', JStr (fullName D u)), (''role'', JStr (role u)),
      (''isEmailVerified'', JBool (isEmailVerified u)), (''isActive'', JBool (isActive u))]"

text \<open>
  Modelled from the spec: \<open>incLoginAttempts\<close> of models/User.js, which is not among the
  sources. The spec: on password mismatch the failed-login counter is incremented; when
  the counter crosses the threshold (5), lockout-until is set to now plus a fixed duration.
\<close>

definition incLoginAttempts :: "deps \<Rightarrow> nat \<Rightarrow> user \<Rightarrow> user" where
  "incLoginAttempts D now u =
     (let n = loginAttempts u + 1
      in if 5 \<le> n then u\<lparr>loginAttempts := n, lockUntil := Some (now + lockTime D)\<rparr>
         else u\<lparr>loginAttempts := n\<rparr>)"

text \<open>
  Modelled from the spec: \<open>resetLoginAttempts\<close> of models/User.js. The spec: a successful
  login resets the failed-login counter to zero.
\<close>

definition resetLoginAttempts :: "user \<Rightarrow> user" where
  "resetLoginAttempts u = u\<lparr>loginAttempts := 0\<rparr>"

definition login :: "deps \<Rightarrow> nat \<Rightarrow> request \<Rightarrow> string \<Rightarrow> string \<Rightarrow> db \<Rightarrow> response \<times> db" where
  "login D now req em pw d =
     (case findOne (\<lambda>u. email u = em) (users d) of
        None \<Rightarrow> (json 401 (error_body ''Invalid email or password'' ''INVALID_CREDENTIALS''), d)
      | Some u \<Rightarrow>
          if isLocked now u
          then (json 423 (error_body
                  ''Account is temporarily locked due to too many failed login attempts'' ''ACCOUNT_LOCKED''), d)
          else if \<not> isActive u
          then (json 401 (error_body ''Account is deactivated'' ''ACCOUNT_DEACTIVATED''), d)
          else if \<not> checkPassword D pw (password u)
          then (let d1 = d\<lparr>users := save (incLoginAttempts D now u) (users d)\<rparr>
                in case createLog now
                          (log_data req (uid u) ''LOGIN'' (uid u)
                             [(''email'', JStr em), (''reason'', JStr ''Invalid password'')] ''MEDIUM'' ''FAILURE'')
                          (auditLogs d1) of
                     Inl _ \<Rightarrow> (json 500 (error_body ''Login failed'' ''LOGIN_ERROR''), d1)
                   | Inr logs \<Rightarrow>
                       (json 401 (error_body ''Invalid email or password'' ''INVALID_CREDENTIALS''),
                        d1\<lparr>auditLogs := logs\<rparr>))
          else (let u1 = (if 0 < loginAttempts u then resetLoginAttempts u else u);
                    u2 = u1\<lparr>lastLogin := Some now\<rparr>;
                    d1 = d\<lparr>users := save u2 (users d)\<rparr>;
                    token = generateToken D now (uid u2)
                in case createLog now
                          (log_data req (uid u2) ''LOGIN'' (uid u2) [(''email'', JStr em)] ''LOW'' ''SUCCESS'')
                          (auditLogs d1) of
                     Inl _ \<Rightarrow> (json 500 (error_body ''Login failed'' ''LOGIN_ERROR''), d1)
                   | Inr logs \<Rightarrow>
                       (json 200
                          [(''message'', JStr ''Login successful''), (''token'', JTok token),
                           (''user'', JObj (profile D u2 @
                              [(''lastLogin'', (case lastLogin u2 of None \<Rightarrow> JNull | Some t \<Rightarrow> JNum t))]))],
                        d1\<lparr>auditLogs := logs\<rparr>)))"



definition forgot_message :: "(string \<times> jval) list" where
  "forgot_message = [(''message'', JStr ''If an account with that email exists, we have sent a password reset link.'')]"

definition forgotPassword ::
  "nat \<Rightarrow> string \<Rightarrow> (string \<Rightarrow> string \<Rightarrow> bool) \<Rightarrow> request \<Rightarrow> string \<Rightarrow> db \<Rightarrow> response \<times> db" where
  "forgotPassword now rnd mail req em d =
     (case findOne (\<lambda>u. email u = em) (users d) of
        None \<Rightarrow> (json 200 forgot_message, d)
      | Some u \<Rightarrow>
          (let u1 = u\<lparr>passwordResetToken := Some rnd, passwordResetExpires := Some (now + 60 * 60 * 1000)\<rparr>;
               d1 = d\<lparr>users := save u1 (users d)\<rparr>
           in if \<not> mail em ''passwordReset''
              then (json 500 (error_body ''Failed to send password reset email'' ''EMAIL_SEND_ERROR''), d1)
              else (case createLog now
                           (log_data req (uid u1) ''PASSWORD_RESET'' (uid u1)
                              [(''email'', JStr em), (''action'', JStr ''requested'')] ''MEDIUM'' ''SUCCESS'')
                           (auditLogs d1) of
                      Inl _ \<Rightarrow> (json 500 (error_body ''Password reset request failed'' ''PASSWORD_RESET_ERROR''), d1)
                    | Inr logs \<Rightarrow> (json 200 forgot_message, d1\<lparr>auditLogs := logs\<rparr>))))"



section \<open>User administration (the users router)\<close>

text \<open>Decimal rendering of a number inside a template string.\<close>

fun toString_nat :: "nat \<Rightarrow> string" where
  "toString_nat n =
     (if n < 10 then [''0123456789'' ! n]
      else toString_nat (n div 10) @ [''0123456789'' ! (n mod 10)])"

text \<open>
  The handler of \<open>DELETE /:id\<close>. A missing \<open>req.user\<close> makes \<open>req.user._id\<close> throw,
  which the handler's own \<open>catch\<close> turns into the 500 response, as it does a
  \<open>CastError\<close> of the lookup. The self test \<open>id === req.user._id.toString()\<close> compares
  the strings as they are; \<open>User.findById(id)\<close> casts \<open>id\<close>.
\<close>

definition delete_user :: "nat \<Rightarrow> request \<Rightarrow> db \<Rightarrow> response \<times> db" where
  "delete_user now req d =
     (case req_user req of
        None \<Rightarrow> (json 500 (error_body ''Failed to delete user'' ''DELETE_USER_ERROR''), d)
      | Some admin \<Rightarrow>
          if params_id req = Some (uid admin)
          then (json 400 (error_body ''Cannot delete your own account'' ''CANNOT_DELETE_SELF''), d)
          else (case (case params_id req of None \<Rightarrow> Inr None | Some i \<Rightarrow> findById i (users d)) of
                  Inl _ \<Rightarrow> (json 500 (error_body ''Failed to delete user'' ''DELETE_USER_ERROR''), d)
                | Inr None \<Rightarrow> (json 404 (error_body ''User not found'' ''USER_NOT_FOUND''), d)
                | Inr (Some u) \<Rightarrow>
                    (let u1 = u\<lparr>isActive := False,
                                 email := ''deleted_'' @ toString_nat now @ ''_'' @ email u\<rparr>;
                         d1 = d\<lparr>users := save u1 (users d)\<rparr>
                     in case createLog now
                               (log_data req (uid admin) ''USER_DELETE'' (uid u1)
                                  [(''targetUser'', JStr (email u1)), (''deletedBy'', JStr (email admin))]
                                  ''HIGH'' ''SUCCESS'')
                               (auditLogs d1) of
                          Inl _ \<Rightarrow> (json 500 (error_body ''Failed to delete user'' ''DELETE_USER_ERROR''), d1)
                        | Inr logs \<Rightarrow> (json 200 [(''message'', JStr ''User deleted successfully'')],
                                       d1\<lparr>auditLogs := logs\<rparr>))))"

text \<open>
  The route behind \<open>authenticateToken\<close>: \<open>requireRole('admin')\<close>, the id-format validator
  \<open>userValidations.getUserById\<close>, then the handler.
\<close>

definition delete_user_route :: "deps \<Rightarrow> nat \<Rightarrow> request \<Rightarrow> db \<Rightarrow> response \<times> db" where
  "delete_user_route D now req d =
     (case run_guard now (requireRole [''admin''] req) d of
        (Respond r, d1) \<Rightarrow> (r, d1)
      | (Next req1, d1) \<Rightarrow>
          (case params_id req1 of
             None \<Rightarrow> delete_user now req1 d1
           | Some i \<Rightarrow>
               if \<not> validObjectId D i
               then (json 400
                       [(''message'', JStr ''Validation failed''),
                        (''errors'', JArr [JObj [(''field'', JStr ''id''), (''message'', JStr ''Invalid ID format''),
                                                 (''value'', JStr i)]])], d1)
               else delete_user now req1 d1))"

section \<open>Scenarios\<close>

text \<open>Running a series of login attempts \<open>(time, password)\<close> for one email, in order.\<close>

fun login_seq :: "deps \<Rightarrow> request \<Rightarrow> string \<Rightarrow> (nat \<times> string) list \<Rightarrow> db \<Rightarrow> db" where
  "login_seq D req em [] d = d"
| "login_seq D req em ((t, pw) # rest) d = login_seq D req em rest (snd (login D t req em pw d))"

text \<open>A concrete configuration, three accounts and a request, for evaluating the routes.\<close>

definition sample_deps :: deps where
  "sample_deps =
     \<lparr>JWT_SECRET = ''secret'', JWT_EXPIRES_IN = None,
      hmac = (\<lambda>k (u, i, e). k @ u),
      hashPassword = (\<lambda>p. ''h:'' @ p),
      checkPassword = (\<lambda>p h. h = ''h:'' @ p),
      lockTime = 7200000,
      rolePermissions = (\<lambda>r. if r = ''admin'' then [''*'']
                             else if r = ''instructor'' then [''course:create''] else []),
      validObjectId = (\<lambda>s. length s = 24 \<and> list_all hex_digit s),
      fullName = (\<lambda>u. firstName u @ '' '' @ lastName u)\<rparr>"

definition sample_user :: "string \<Rightarrow> string \<Rightarrow> string \<Rightarrow> user" where
  "sample_user i em rl =
     \<lparr>uid = i, email = em, password = ''h:Passw0rd!'', firstName = ''Ann'', lastName = ''Lee'', role = rl,
      isActive = True, isEmailVerified = False, loginAttempts = 0, lockUntil = None, lastLogin = None,
      emailVerificationToken = None, passwordResetToken = None, passwordResetExpires = None\<rparr>"

definition admin0 :: user where
  "admin0 = sample_user ''64b000000000000000000001'' ''admin@example.com'' ''admin''"

definition alice :: user where
  "alice = sample_user ''64b000000000000000000002'' ''alice@example.com'' ''student''"

definition bob :: user where
  "bob = sample_user ''64b000000000000000000003'' ''bob@example.com'' ''instructor''"

definition db0 :: db where
  "db0 = \<lparr>users = [admin0, alice, bob], auditLogs = []\<rparr>"

definition req0 :: request where
  "req0 = \<lparr>authorization = None, req_user = None, req_resource = None, params_id = None,
           originalUrl = ''/api/users'', http_method = ''GET'', ip = ''10.0.0.7'', user_agent = ''curl''\<rparr>"

text \<open>A locked account, a deactivated one, and a store that holds them.\<close>

definition carol :: user where
  "carol = (sample_user ''64b000000000000000000004'' ''carol@example.com'' ''student'')
             \<lparr>loginAttempts := 5, lockUntil := Some 9000000\<rparr>"

definition dave :: user where
  "dave = (sample_user ''64b000000000000000000005'' ''dave@example.com'' ''student'')\<lparr>isActive := False\<rparr>"

definition db1 :: db where
  "db1 = \<lparr>users = [admin0, alice, bob, carol, dave], auditLogs = []\<rparr>"

section \<open>Auxiliary facts\<close>

lemma find_save:
  "find P us = Some u \<Longrightarrow> uid u' = uid u \<Longrightarrow> P u' \<Longrightarrow> find P (save u' us) = Some u'"
  by (induction us) (auto simp: save_def)

text \<open>
  The action enumeration of the schema does not list \<open>UNAUTHORIZED_ACCESS\<close>, so the
  event the role and permission guards build is rejected by \<open>createLog\<close>.
\<close>

lemma createLog_unauthorized_rejected:
  "createLog now (unauthorized_event req u x) logs = Inl ValidationError"
  by (simp add: createLog_def validate_log_def unauthorized_event_def action_enum_def)

lemma createLog_log_data:
  "act \<in> set action_enum \<Longrightarrow> sev \<in> set severity_enum \<Longrightarrow> st \<in> set status_enum \<Longrightarrow>
   createLog now (log_data req who act rid det sev st) logs =
     Inr (logs @ [(log_data req who act rid det sev st)\<lparr>timestamp := Some now\<rparr>])"
  by (simp add: createLog_def validate_log_def log_data_def)

section \<open>Authorization Guard: audit of denials\<close>

text \<open>
  On a denial, the role guard and the permission guard each answer 403 and hand exactly
  one event to \<open>AuditLog.createLog\<close>, with action \<open>UNAUTHORIZED_ACCESS\<close>, severity
  \<open>HIGH\<close> and status \<open>FAILURE\<close>.
\<close>

lemma denial_hands_one_event:
  assumes "req_user req = Some u"
  shows "(role u \<notin> set roles \<longrightarrow>
            (\<exists>r e. requireRole roles req = (Respond r, [e]) \<and> http_status r = 403 \<and>
                   action e = ''UNAUTHORIZED_ACCESS'' \<and> severity e = ''HIGH'' \<and> status e = ''FAILURE''))
       \<and> (\<not> hasPermission D u p \<longrightarrow>
            (\<exists>r e. requirePermission D p req = (Respond r, [e]) \<and> http_status r = 403 \<and>
                   action e = ''UNAUTHORIZED_ACCESS'' \<and> severity e = ''HIGH'' \<and> status e = ''FAILURE''))"
  using assms
  by (simp add: requireRole_def requirePermission_def json_def unauthorized_event_def)

text \<open>That event is rejected by the schema, so no denial by a role or a permission is recorded.\<close>

lemma role_denial_leaves_log:
  "req_user req = Some u \<Longrightarrow> role u \<notin> set roles \<Longrightarrow>
   snd (run_guard now (requireRole roles req) d) = d"
  by (simp add: run_guard_def requireRole_def createLog_detached_def createLog_unauthorized_rejected)

lemma permission_denial_leaves_log:
  "req_user req = Some u \<Longrightarrow> \<not> hasPermission D u p \<Longrightarrow>
   snd (run_guard now (requirePermission D p req) d) = d"
  by (simp add: run_guard_def requirePermission_def createLog_detached_def createLog_unauthorized_rejected)

text \<open>
  C1 fails on the code. A student asking for the admin-only \<open>GET /api/users\<close> is denied by
  \<open>requireRole('admin')\<close> with 403 \<open>INSUFFICIENT_PERMISSIONS\<close>; the event the guard hands to
  \<open>createLog\<close> is rejected, because the action enumeration of the AuditLog schema does not
  list \<open>UNAUTHORIZED_ACCESS\<close>; the store, audit log included, is afterwards what it was, so
  no audit event has been appended.
\<close>

theorem role_denial_not_audited:
  "run_guard 1000 (requireRole [''admin''] (req0\<lparr>req_user := Some alice\<rparr>)) db0
     = (Respond (json 403
          [(''message'', JStr ''Insufficient permissions''), (''code'', JStr ''INSUFFICIENT_PERMISSIONS''),
           (''required'', JArr [JStr ''admin'']), (''current'', JStr ''student'')]), db0)
   \<and> auditLogs db0 = []
   \<and> snd (requireRole [''admin''] (req0\<lparr>req_user := Some alice\<rparr>))
       = [unauthorized_event (req0\<lparr>req_user := Some alice\<rparr>) alice (''requiredRoles'', JArr [JStr ''admin''])]
   \<and> createLog 1000
        (unauthorized_event (req0\<lparr>req_user := Some alice\<rparr>) alice (''requiredRoles'', JArr [JStr ''admin'']))
        (auditLogs db0) = Inl ValidationError
   \<and> ''UNAUTHORIZED_ACCESS'' \<notin> set action_enum"
  by (simp add: run_guard_def requireRole_def createLog_detached_def createLog_unauthorized_rejected
      alice_def sample_user_def db0_def action_enum_def)

section \<open>Authorization Guard: ownership\<close>

text \<open>
  C10. For an authenticated request whose role is not in the allowed roles: with a
  resource id in the route parameters and no resource attached to the request, the
  ownership guard passes the request on, unchanged and without an audit event; and it
  answers \<open>NOT_RESOURCE_OWNER\<close> exactly when a resource is attached whose owner field is
  set and differs from the requester's id.
\<close>

theorem ownership_guard_passes_without_resource:
  assumes "req_user req = Some u" and "role u \<notin> set allowedRoles"
  shows "(params_id req = Some resId \<and> resId \<noteq> [] \<and> req_resource req = None \<longrightarrow>
            requireOwnershipOrRole resourceField allowedRoles req = (Next req, []))
       \<and> (fst (requireOwnershipOrRole resourceField allowedRoles req)
            = Respond (json 403 (error_body ''Access denied - not resource owner'' ''NOT_RESOURCE_OWNER''))
          \<longleftrightarrow> (\<exists>resId r ownerId. params_id req = Some resId \<and> resId \<noteq> [] \<and> req_resource req = Some r \<and>
                 map_of r resourceField = Some ownerId \<and> ownerId \<noteq> [] \<and> ownerId \<noteq> uid u))"
  using assms
  by (auto simp: requireOwnershipOrRole_def resource_owner_def json_def error_body_def
      split: option.splits if_splits)

theorem ownership_guard_passes_without_resource_witness:
  "req_user (req0\<lparr>req_user := Some alice, params_id := Some ''64c000000000000000000009''\<rparr>) = Some alice
   \<and> role alice \<notin> set [''admin'']
   \<and> requireOwnershipOrRole ''user'' [''admin'']
        (req0\<lparr>req_user := Some alice, params_id := Some ''64c000000000000000000009''\<rparr>)
      = (Next (req0\<lparr>req_user := Some alice, params_id := Some ''64c000000000000000000009''\<rparr>), [])"
proof -
  let ?req = "req0\<lparr>req_user := Some alice, params_id := Some ''64c000000000000000000009''\<rparr>"
  have a: "req_user ?req = Some alice" by simp
  have b: "role alice \<notin> set [''admin'']" by (simp add: alice_def sample_user_def)
  have c: "params_id ?req = Some ''64c000000000000000000009'' \<and> ''64c000000000000000000009'' \<noteq> [] \<and> req_resource ?req = None"
    by (simp add: req0_def)
  from ownership_guard_passes_without_resource [OF a b, of "''64c000000000000000000009''" "''user''"] a b c
  show ?thesis by blast
qed

section \<open>Login: lockout\<close>

lemma login_locked:
  "findOne (\<lambda>v. email v = em) (users d) = Some u \<Longrightarrow> isLocked now u \<Longrightarrow>
   login D now req em pw d =
     (json 423 (error_body ''Account is temporarily locked due to too many failed login attempts''
        ''ACCOUNT_LOCKED''), d)"
  by (simp add: login_def)

lemma login_wrong_password:
  "findOne (\<lambda>v. email v = em) (users d) = Some u \<Longrightarrow> \<not> isLocked now u \<Longrightarrow> isActive u \<Longrightarrow>
   \<not> checkPassword D pw (password u) \<Longrightarrow>
   login D now req em pw d =
     (json 401 (error_body ''Invalid email or password'' ''INVALID_CREDENTIALS''),
      d\<lparr>users := save (incLoginAttempts D now u) (users d),
        auditLogs := auditLogs d @
          [(log_data req (uid u) ''LOGIN'' (uid u)
              [(''email'', JStr em), (''reason'', JStr ''Invalid password'')] ''MEDIUM'' ''FAILURE'')
           \<lparr>timestamp := Some now\<rparr>]\<rparr>)"
  by (simp add: login_def Let_def createLog_log_data action_enum_def severity_enum_def status_enum_def)

lemma findOne_after_failed_login:
  assumes "findOne (\<lambda>v. email v = em) (users d) = Some u" "\<not> isLocked now u" "isActive u"
    "\<not> checkPassword D pw (password u)"
  shows "findOne (\<lambda>v. email v = em) (users (snd (login D now req em pw d))) = Some (incLoginAttempts D now u)"
proof -
  from assms(1) have em: "email u = em"
    by (auto simp: findOne_def find_Some_iff)
  have "find (\<lambda>v. email v = em) (save (incLoginAttempts D now u) (users d)) = Some (incLoginAttempts D now u)"
    using find_save [of "\<lambda>v. email v = em" "users d" u "incLoginAttempts D now u"] assms(1) em
    by (simp add: findOne_def incLoginAttempts_def Let_def)
  then show ?thesis
    by (simp add: login_wrong_password [OF assms] findOne_def)
qed

lemma failed_logins_count:
  assumes "\<forall>(t, p) \<in> set attempts. \<not> checkPassword D p pwh"
  shows "findOne (\<lambda>v. email v = em) (users d) = Some u \<Longrightarrow> password u = pwh \<Longrightarrow> lockUntil u = None \<Longrightarrow>
    isActive u \<Longrightarrow> loginAttempts u + length attempts < 5 \<Longrightarrow>
    \<exists>u'. findOne (\<lambda>v. email v = em) (users (login_seq D req em attempts d)) = Some u' \<and>
         password u' = pwh \<and> lockUntil u' = None \<and> isActive u' \<and>
         loginAttempts u' = loginAttempts u + length attempts"
  using assms
proof (induction attempts arbitrary: d u)
  case Nil
  then show ?case by simp
next
  case (Cons a attempts)
  obtain t p where a: "a = (t, p)" by (cases a)
  let ?u1 = "incLoginAttempts D t u"
  let ?d1 = "snd (login D t req em p d)"
  have nl: "\<not> isLocked t u" using Cons.prems by (simp add: isLocked_def)
  have wrong: "\<not> checkPassword D p (password u)" using Cons.prems a by simp
  have f1: "findOne (\<lambda>v. email v = em) (users ?d1) = Some ?u1"
    using findOne_after_failed_login [OF Cons.prems(1) nl Cons.prems(4) wrong] .
  have u1: "password ?u1 = pwh" "lockUntil ?u1 = None" "isActive ?u1" "loginAttempts ?u1 = loginAttempts u + 1"
    using Cons.prems by (simp_all add: incLoginAttempts_def Let_def)
  have "\<exists>u'. findOne (\<lambda>v. email v = em) (users (login_seq D req em attempts ?d1)) = Some u' \<and>
         password u' = pwh \<and> lockUntil u' = None \<and> isActive u' \<and>
         loginAttempts u' = loginAttempts ?u1 + length attempts"
    using Cons.prems u1 by (intro Cons.IH [OF f1]) auto
  then show ?case using u1 a by simp
qed

lemma login_seq_append:
  "login_seq D req em (xs @ ys) d = login_seq D req em ys (login_seq D req em xs d)"
  by (induction xs arbitrary: d) auto

text \<open>
  C3. A login for an account whose lockout-until lies in the future answers 423
  \<open>ACCOUNT_LOCKED\<close> and changes nothing, whatever password is supplied: the lock is
  checked before the password is compared. And for an active, unlocked account with no
  failed attempts, five consecutive logins with wrong passwords leave the account with
  lockout-until set to the time of the fifth attempt plus the (positive) lockout
  duration, so that it is locked at that moment, and every login before that expiry
  answers 423 \<open>ACCOUNT_LOCKED\<close>, the correct password included.
\<close>

theorem login_lockout:
  assumes "findOne (\<lambda>v. email v = em) (users d) = Some u"
  shows "(isLocked now u \<longrightarrow>
            login D now req em pw d =
              (json 423 (error_body ''Account is temporarily locked due to too many failed login attempts''
                 ''ACCOUNT_LOCKED''), d))
       \<and> (loginAttempts u = 0 \<and> lockUntil u = None \<and> isActive u \<and> 0 < lockTime D \<and> length pre = 4 \<and>
          (\<forall>(t, p) \<in> set (pre @ [(t5, p5)]). \<not> checkPassword D p (password u)) \<longrightarrow>
            (\<exists>u'. findOne (\<lambda>v. email v = em) (users (login_seq D req em (pre @ [(t5, p5)]) d)) = Some u' \<and>
                  lockUntil u' = Some (t5 + lockTime D) \<and> isLocked t5 u' \<and>
                  (\<forall>t pw'. t < t5 + lockTime D \<longrightarrow>
                     fst (login D t req em pw' (login_seq D req em (pre @ [(t5, p5)]) d)) =
                       json 423 (error_body ''Account is temporarily locked due to too many failed login attempts''
                         ''ACCOUNT_LOCKED''))))"
proof (intro conjI impI)
  assume "isLocked now u"
  with assms show "login D now req em pw d =
      (json 423 (error_body ''Account is temporarily locked due to too many failed login attempts''
         ''ACCOUNT_LOCKED''), d)"
    by (rule login_locked)
next
  assume h: "loginAttempts u = 0 \<and> lockUntil u = None \<and> isActive u \<and> 0 < lockTime D \<and> length pre = 4 \<and>
          (\<forall>(t, p) \<in> set (pre @ [(t5, p5)]). \<not> checkPassword D p (password u))"
  let ?d4 = "login_seq D req em pre d"
  let ?d5 = "login_seq D req em (pre @ [(t5, p5)]) d"
  have "\<forall>(t, p) \<in> set pre. \<not> checkPassword D p (password u)" using h by auto
  from failed_logins_count [OF this assms, of req] h
  obtain u4 where u4: "findOne (\<lambda>v. email v = em) (users ?d4) = Some u4" "password u4 = password u"
    "lockUntil u4 = None" "isActive u4" "loginAttempts u4 = 4"
    by auto
  have nl: "\<not> isLocked t5 u4" using u4 by (simp add: isLocked_def)
  have wrong: "\<not> checkPassword D p5 (password u4)" using h u4 by simp
  have d5: "?d5 = snd (login D t5 req em p5 ?d4)" by (simp add: login_seq_append)
  let ?u5 = "incLoginAttempts D t5 u4"
  have f5: "findOne (\<lambda>v. email v = em) (users ?d5) = Some ?u5"
    unfolding d5 using findOne_after_failed_login [OF u4(1) nl u4(4) wrong] .
  have l5: "lockUntil ?u5 = Some (t5 + lockTime D)"
    using u4 by (simp add: incLoginAttempts_def Let_def)
  have locked: "isLocked t ?u5" if "t < t5 + lockTime D" for t
    using l5 that by (simp add: isLocked_def)
  have "isLocked t5 ?u5" using h by (intro locked) simp
  moreover have "\<forall>t pw'. t < t5 + lockTime D \<longrightarrow>
      fst (login D t req em pw' ?d5) =
        json 423 (error_body ''Account is temporarily locked due to too many failed login attempts''
          ''ACCOUNT_LOCKED'')"
    using login_locked [OF f5 locked] by simp
  ultimately show "\<exists>u'. findOne (\<lambda>v. email v = em) (users ?d5) = Some u' \<and>
      lockUntil u' = Some (t5 + lockTime D) \<and> isLocked t5 u' \<and>
      (\<forall>t pw'. t < t5 + lockTime D \<longrightarrow>
         fst (login D t req em pw' ?d5) =
           json 423 (error_body ''Account is temporarily locked due to too many failed login attempts''
             ''ACCOUNT_LOCKED''))"
    using f5 l5 by blast
qed


lemma findOne_db0_alice: "findOne (\<lambda>v. email v = ''alice@example.com'') (users db0) = Some alice"
  by (simp add: findOne_def db0_def admin0_def alice_def sample_user_def)

lemma findOne_db1_carol: "findOne (\<lambda>v. email v = ''carol@example.com'') (users db1) = Some carol"
  by (simp add: findOne_def db1_def admin0_def alice_def bob_def carol_def sample_user_def)

lemma findOne_db1_dave: "findOne (\<lambda>v. email v = ''dave@example.com'') (users db1) = Some dave"
  by (simp add: findOne_def db1_def admin0_def alice_def bob_def carol_def dave_def sample_user_def)

lemma findOne_db1_nobody: "findOne (\<lambda>v. email v = ''nobody@example.com'') (users db1) = None"
  by (simp add: findOne_def db1_def admin0_def alice_def bob_def carol_def dave_def sample_user_def)

lemma isLocked_carol: "isLocked 5000 carol"
  by (simp add: isLocked_def carol_def sample_user_def)

theorem login_lockout_witness:
  "findOne (\<lambda>v. email v = ''carol@example.com'') (users db1) = Some carol
   \<and> isLocked 5000 carol
   \<and> checkPassword sample_deps ''Passw0rd!'' (password carol)
   \<and> login sample_deps 5000 req0 ''carol@example.com'' ''Passw0rd!'' db1 =
       (json 423 (error_body ''Account is temporarily locked due to too many failed login attempts''
          ''ACCOUNT_LOCKED''), db1)
   \<and> findOne (\<lambda>v. email v = ''alice@example.com'') (users db0) = Some alice
   \<and> loginAttempts alice = 0 \<and> lockUntil alice = None \<and> isActive alice \<and> 0 < lockTime sample_deps
   \<and> checkPassword sample_deps ''Passw0rd!'' (password alice)
   \<and> fst (login sample_deps 6000 req0 ''alice@example.com'' ''Passw0rd!''
        (login_seq sample_deps req0 ''alice@example.com''
           ([(1000, ''a''), (2000, ''b''), (3000, ''c''), (4000, ''d'')] @ [(5000, ''e'')]) db0)) =
       json 423 (error_body ''Account is temporarily locked due to too many failed login attempts''
          ''ACCOUNT_LOCKED'')"
proof -
  have c: "checkPassword sample_deps ''Passw0rd!'' (password carol)"
    by (simp add: sample_deps_def carol_def sample_user_def)
  have a: "loginAttempts alice = 0 \<and> lockUntil alice = None \<and> isActive alice \<and> 0 < lockTime sample_deps \<and>
      length [(1000::nat, ''a''), (2000, ''b''), (3000, ''c''), (4000, ''d'')] = 4 \<and>
      (\<forall>(t, p) \<in> set ([(1000, ''a''), (2000, ''b''), (3000, ''c''), (4000, ''d'')] @ [(5000, ''e'')]).
         \<not> checkPassword sample_deps p (password alice))"
    by (simp add: sample_deps_def alice_def sample_user_def)
  have ok: "checkPassword sample_deps ''Passw0rd!'' (password alice)"
    by (simp add: sample_deps_def alice_def sample_user_def)
  have t: "(6000::nat) < 5000 + lockTime sample_deps" by (simp add: sample_deps_def)
  from login_lockout [OF findOne_db1_carol, of 5000 sample_deps req0 "''Passw0rd!''"] isLocked_carol
  have p1: "login sample_deps 5000 req0 ''carol@example.com'' ''Passw0rd!'' db1 =
       (json 423 (error_body ''Account is temporarily locked due to too many failed login attempts''
          ''ACCOUNT_LOCKED''), db1)"
    by blast
  from login_lockout [OF findOne_db0_alice, of 0 sample_deps req0 "''x''"
      "[(1000, ''a''), (2000, ''b''), (3000, ''c''), (4000, ''d'')]" 5000 "''e''"] a t
  have p2: "fst (login sample_deps 6000 req0 ''alice@example.com'' ''Passw0rd!''
        (login_seq sample_deps req0 ''alice@example.com''
           ([(1000, ''a''), (2000, ''b''), (3000, ''c''), (4000, ''d'')] @ [(5000, ''e'')]) db0)) =
       json 423 (error_body ''Account is temporarily locked due to too many failed login attempts''
          ''ACCOUNT_LOCKED'')"
    by blast
  show ?thesis
    using findOne_db1_carol isLocked_carol c p1 findOne_db0_alice a ok p2 by blast
qed

section \<open>Status of a locked account\<close>

text \<open>
  C2, as stated, fails on the bearer-token path: a valid token of a locked, active account
  is answered by \<open>authenticateToken\<close> with 401, not 423.
\<close>

theorem locked_status_counterexample:
  "isLocked 5000 carol
   \<and> authenticateToken sample_deps 5000
       (req0\<lparr>authorization := Some [Plain ''Bearer'', Compact (generateToken sample_deps 1000 (uid carol))]\<rparr>) db1
     = Respond (json 401 (error_body ''Account is temporarily locked'' ''ACCOUNT_LOCKED''))"
  by (simp add: isLocked_def authenticateToken_def bearer_token_def jwt_verify_def generateToken_def
      jwt_sign_def expiresIn_def findById_def castObjectId_def hex_digit_def lower_hex_def sample_deps_def
      req0_def db1_def admin0_def alice_def bob_def carol_def sample_user_def Let_def)

text \<open>
  C2, amended. For a locked account, \<open>POST /auth/login\<close> answers 423 with code
  \<open>ACCOUNT_LOCKED\<close> and changes nothing; a bearer-token-protected route whose valid
  token names that account answers 401, with code \<open>ACCOUNT_LOCKED\<close> when the account is
  active.
\<close>

theorem locked_account_status:
  assumes "isLocked now u"
  shows "(findOne (\<lambda>v. email v = em) (users d) = Some u \<longrightarrow>
            login D now req em pw d =
              (json 423 (error_body ''Account is temporarily locked due to too many failed login attempts''
                 ''ACCOUNT_LOCKED''), d))
       \<and> (bearer_token req' = Some tok \<and> jwt_verify D now tok = Inr i \<and> findById i (users d) = Inr (Some u) \<longrightarrow>
            (\<exists>r. authenticateToken D now req' d = Respond r \<and> http_status r = 401) \<and>
            (isActive u \<longrightarrow>
               authenticateToken D now req' d =
                 Respond (json 401 (error_body ''Account is temporarily locked'' ''ACCOUNT_LOCKED''))))"
  using assms by (auto simp: login_locked authenticateToken_def json_def)

theorem locked_account_status_witness:
  "isLocked 5000 carol
   \<and> findOne (\<lambda>v. email v = ''carol@example.com'') (users db1) = Some carol
   \<and> login sample_deps 5000 req0 ''carol@example.com'' ''Passw0rd!'' db1 =
       (json 423 (error_body ''Account is temporarily locked due to too many failed login attempts''
          ''ACCOUNT_LOCKED''), db1)
   \<and> bearer_token (req0\<lparr>authorization := Some [Plain ''Bearer'', Compact (generateToken sample_deps 1000 (uid carol))]\<rparr>)
       = Some (Compact (generateToken sample_deps 1000 (uid carol)))
   \<and> jwt_verify sample_deps 5000 (Compact (generateToken sample_deps 1000 (uid carol))) = Inr (uid carol)
   \<and> findById (uid carol) (users db1) = Inr (Some carol)
   \<and> isActive carol
   \<and> authenticateToken sample_deps 5000
       (req0\<lparr>authorization := Some [Plain ''Bearer'', Compact (generateToken sample_deps 1000 (uid carol))]\<rparr>) db1
     = Respond (json 401 (error_body ''Account is temporarily locked'' ''ACCOUNT_LOCKED''))"
proof -
  let ?req = "req0\<lparr>authorization := Some [Plain ''Bearer'', Compact (generateToken sample_deps 1000 (uid carol))]\<rparr>"
  have b: "bearer_token ?req = Some (Compact (generateToken sample_deps 1000 (uid carol)))"
    by (simp add: bearer_token_def)
  have v: "jwt_verify sample_deps 5000 (Compact (generateToken sample_deps 1000 (uid carol))) = Inr (uid carol)"
    by (simp add: jwt_verify_def generateToken_def jwt_sign_def expiresIn_def sample_deps_def Let_def)
  have f: "findById (uid carol) (users db1) = Inr (Some carol)"
    by (simp add: findById_def castObjectId_def hex_digit_def lower_hex_def db1_def admin0_def alice_def bob_def
        carol_def sample_user_def)
  have act: "isActive carol" by (simp add: carol_def sample_user_def)
  from locked_account_status [OF isLocked_carol, of "''carol@example.com''" db1 sample_deps req0 "''Passw0rd!''"
      ?req "Compact (generateToken sample_deps 1000 (uid carol))" "uid carol"]
    findOne_db1_carol b v f act isLocked_carol
  show ?thesis by blast
qed

section \<open>Login: indistinguishable failures\<close>

text \<open>
  C5, as stated, fails. With a wrong password, an unknown email is answered with 401
  \<open>INVALID_CREDENTIALS\<close>, a locked account with 423 \<open>ACCOUNT_LOCKED\<close> and a
  deactivated account with 401 \<open>ACCOUNT_DEACTIVATED\<close>.
\<close>

theorem login_failure_counterexample:
  "login sample_deps 5000 req0 ''nobody@example.com'' ''wrong'' db1 =
     (json 401 (error_body ''Invalid email or password'' ''INVALID_CREDENTIALS''), db1)
   \<and> \<not> checkPassword sample_deps ''wrong'' (password carol)
   \<and> login sample_deps 5000 req0 ''carol@example.com'' ''wrong'' db1 =
     (json 423 (error_body ''Account is temporarily locked due to too many failed login attempts''
        ''ACCOUNT_LOCKED''), db1)
   \<and> \<not> checkPassword sample_deps ''wrong'' (password dave)
   \<and> login sample_deps 5000 req0 ''dave@example.com'' ''wrong'' db1 =
     (json 401 (error_body ''Account is deactivated'' ''ACCOUNT_DEACTIVATED''), db1)"
  by (simp add: login_def findOne_db1_nobody findOne_db1_carol findOne_db1_dave isLocked_carol)
     (simp add: isLocked_def sample_deps_def carol_def dave_def sample_user_def)

text \<open>
  C5, amended. A login with an email that matches no account and a login with a wrong
  password for an existing account that is active and not locked get the same response:
  401 with the message \<open>Invalid email or password\<close> and the code
  \<open>INVALID_CREDENTIALS\<close>.
\<close>

theorem login_failure_indistinguishable:
  assumes "findOne (\<lambda>v. email v = em1) (users d1) = None"
    and "findOne (\<lambda>v. email v = em2) (users d2) = Some u"
    and "\<not> isLocked now2 u" and "isActive u" and "\<not> checkPassword D pw2 (password u)"
  shows "fst (login D now1 req1 em1 pw1 d1) = json 401 (error_body ''Invalid email or password'' ''INVALID_CREDENTIALS'')
       \<and> fst (login D now2 req2 em2 pw2 d2) = fst (login D now1 req1 em1 pw1 d1)"
  using assms(1) by (simp add: login_wrong_password [OF assms(2-5)]) (simp add: login_def)

theorem login_failure_indistinguishable_witness:
  "findOne (\<lambda>v. email v = ''nobody@example.com'') (users db1) = None
   \<and> findOne (\<lambda>v. email v = ''alice@example.com'') (users db0) = Some alice
   \<and> \<not> isLocked 5000 alice \<and> isActive alice \<and> \<not> checkPassword sample_deps ''wrong'' (password alice)
   \<and> fst (login sample_deps 5000 req0 ''alice@example.com'' ''wrong'' db0) =
       json 401 (error_body ''Invalid email or password'' ''INVALID_CREDENTIALS'')
   \<and> fst (login sample_deps 5000 req0 ''alice@example.com'' ''wrong'' db0) =
       fst (login sample_deps 4000 req0 ''nobody@example.com'' ''guess'' db1)"
proof -
  have a: "\<not> isLocked 5000 alice" by (simp add: isLocked_def alice_def sample_user_def)
  have b: "isActive alice" by (simp add: alice_def sample_user_def)
  have c: "\<not> checkPassword sample_deps ''wrong'' (password alice)"
    by (simp add: sample_deps_def alice_def sample_user_def)
  from login_failure_indistinguishable [OF findOne_db1_nobody findOne_db0_alice a b c,
      of 4000 req0 "''guess''" req0]
  show ?thesis using findOne_db1_nobody findOne_db0_alice a b c by simp
qed

section \<open>Password reset\<close>










section \<open>Forgotten password and registration: the Notifier\<close>

lemma forgotPassword_unknown:
  "findOne (\<lambda>v. email v = em) (users d) = None \<Longrightarrow>
   forgotPassword now rnd mail req em d = (json 200 forgot_message, d)"
  by (simp add: forgotPassword_def)

lemma forgotPassword_sent:
  "findOne (\<lambda>v. email v = em) (users d) = Some u \<Longrightarrow> mail em ''passwordReset'' \<Longrightarrow>
   fst (forgotPassword now rnd mail req em d) = json 200 forgot_message"
  by (simp add: forgotPassword_def Let_def createLog_log_data action_enum_def severity_enum_def status_enum_def)


text \<open>
  C6. \<open>ForgotPassword\<close> for an email with no account, and \<open>ForgotPassword\<close> for an
  email with an account whose reset email is sent, return the same response: status 200
  and the same one-message body.
\<close>

theorem forgot_password_same_response:
  assumes "findOne (\<lambda>v. email v = em1) (users d1) = None"
    and "findOne (\<lambda>v. email v = em2) (users d2) = Some u"
    and "mail2 em2 ''passwordReset''"
  shows "fst (forgotPassword now1 rnd1 mail1 req1 em1 d1) = fst (forgotPassword now2 rnd2 mail2 req2 em2 d2)
       \<and> fst (forgotPassword now2 rnd2 mail2 req2 em2 d2) = json 200 forgot_message"
  using forgotPassword_sent [of em2 d2 u mail2 now2 rnd2 req2] assms
  by (simp add: forgotPassword_unknown)

theorem forgot_password_same_response_witness:
  "findOne (\<lambda>v. email v = ''nobody@example.com'') (users db1) = None
   \<and> findOne (\<lambda>v. email v = ''alice@example.com'') (users db0) = Some alice
   \<and> fst (forgotPassword 4000 ''aa11'' (\<lambda>to template. False) req0 ''nobody@example.com'' db1)
       = fst (forgotPassword 5000 ''r3s3t'' (\<lambda>to template. True) req0 ''alice@example.com'' db0)
   \<and> fst (forgotPassword 5000 ''r3s3t'' (\<lambda>to template. True) req0 ''alice@example.com'' db0)
       = json 200 [(''message'', JStr ''If an account with that email exists, we have sent a password reset link.'')]"
proof -
  have n: "findOne (\<lambda>v. email v = ''nobody@example.com'') (users db1) = None"
    by (simp add: findOne_def db1_def admin0_def alice_def bob_def carol_def dave_def sample_user_def)
  have a: "findOne (\<lambda>v. email v = ''alice@example.com'') (users db0) = Some alice"
    by (simp add: findOne_def db0_def admin0_def alice_def sample_user_def)
  from forgot_password_same_response [where ?em1.0 = "''nobody@example.com''" and ?d1.0 = db1
      and ?em2.0 = "''alice@example.com''" and ?d2.0 = db0 and u = alice
      and ?mail2.0 = "\<lambda>to template. True" and ?now1.0 = 4000 and ?rnd1.0 = "''aa11''"
      and ?mail1.0 = "\<lambda>to template. False" and ?req1.0 = req0
      and ?now2.0 = 5000 and ?rnd2.0 = "''r3s3t''" and ?req2.0 = req0]
  show ?thesis using n a by (simp add: forgot_message_def)
qed



section \<open>Token Service: round trip\<close>





section \<open>User deletion\<close>

lemma requireRole_admin_passes:
  "req_user req = Some a \<Longrightarrow> role a = ''admin'' \<Longrightarrow> run_guard now (requireRole [''admin''] req) d = (Next req, d)"
  by (simp add: run_guard_def requireRole_def)

text \<open>The self test rejects the request when the id is, as a string, the requester's id.\<close>

lemma delete_user_self:
  "req_user req = Some a \<Longrightarrow> params_id req = Some (uid a) \<Longrightarrow>
   delete_user now req d = (json 400 (error_body ''Cannot delete your own account'' ''CANNOT_DELETE_SELF''), d)"
  by (simp add: delete_user_def)

text \<open>
  Any other id string that casts to the id of a stored account soft-deletes that account:
  the record stays, deactivated, with its email rewritten.
\<close>

lemma delete_user_found:
  "req_user req = Some a \<Longrightarrow> params_id req = Some i \<Longrightarrow> i \<noteq> uid a \<Longrightarrow> findById i (users d) = Inr (Some u) \<Longrightarrow>
   delete_user now req d =
     (json 200 [(''message'', JStr ''User deleted successfully'')],
      d\<lparr>users := save (u\<lparr>isActive := False, email := ''deleted_'' @ toString_nat now @ ''_'' @ email u\<rparr>) (users d),
        auditLogs := auditLogs d @
          [(log_data req (uid a) ''USER_DELETE'' (uid u)
              [(''targetUser'', JStr (''deleted_'' @ toString_nat now @ ''_'' @ email u)),
               (''deletedBy'', JStr (email a))] ''HIGH'' ''SUCCESS'')\<lparr>timestamp := Some now\<rparr>]\<rparr>)"
  by (simp add: delete_user_def Let_def createLog_log_data action_enum_def severity_enum_def status_enum_def)

lemma map_uid_save: "map uid (save u' us) = map uid us"
  by (induction us) (auto simp: save_def)

text \<open>
  C9 fails on the code. The admin whose id is \<open>64b000000000000000000001\<close> sends
  \<open>DELETE /users/64B000000000000000000001\<close>, their own id with the hexadecimal letter in
  upper case. The id passes the format validator, differs as a string from
  \<open>req.user._id.toString()\<close>, so the self test does not fire, and casts to the admin's own
  ObjectId, so the lookup finds the admin's account: the answer is 200 and the admin's own
  account is deactivated and its email rewritten.
\<close>

theorem delete_self_uppercase_id:
  "uid admin0 = ''64b000000000000000000001'' \<and> role admin0 = ''admin''
   \<and> validObjectId sample_deps ''64B000000000000000000001''
   \<and> castObjectId ''64B000000000000000000001'' = Some (uid admin0)
   \<and> fst (delete_user_route sample_deps 42
        (req0\<lparr>req_user := Some admin0, params_id := Some ''64B000000000000000000001''\<rparr>) db0)
       = json 200 [(''message'', JStr ''User deleted successfully'')]
   \<and> users (snd (delete_user_route sample_deps 42
        (req0\<lparr>req_user := Some admin0, params_id := Some ''64B000000000000000000001''\<rparr>) db0))
       = [admin0\<lparr>isActive := False, email := ''deleted_42_admin@example.com''\<rparr>, alice, bob]"
proof -
  let ?req = "req0\<lparr>req_user := Some admin0, params_id := Some ''64B000000000000000000001''\<rparr>"
  have adm: "uid admin0 = ''64b000000000000000000001''" "role admin0 = ''admin''"
    by (simp_all add: admin0_def sample_user_def)
  have v: "validObjectId sample_deps ''64B000000000000000000001''"
    by (simp add: sample_deps_def hex_digit_def)
  have c: "castObjectId ''64B000000000000000000001'' = Some (uid admin0)"
    by (simp add: castObjectId_def hex_digit_def lower_hex_def adm)
  have f: "findById ''64B000000000000000000001'' (users db0) = Inr (Some admin0)"
    by (simp add: findById_def c) (simp add: db0_def)
  have ne: "''64B000000000000000000001'' \<noteq> uid admin0" by (simp add: adm)
  have r: "delete_user_route sample_deps 42 ?req db0 = delete_user 42 ?req db0"
    using v adm by (simp add: delete_user_route_def requireRole_admin_passes)
  have sv: "save (admin0\<lparr>isActive := False, email := ''deleted_'' @ toString_nat 42 @ ''_'' @ email admin0\<rparr>) (users db0)
      = [admin0\<lparr>isActive := False, email := ''deleted_42_admin@example.com''\<rparr>, alice, bob]"
    by (simp add: save_def db0_def admin0_def alice_def bob_def sample_user_def)
  have o: "delete_user 42 ?req db0 =
     (json 200 [(''message'', JStr ''User deleted successfully'')],
      db0\<lparr>users := save (admin0\<lparr>isActive := False, email := ''deleted_'' @ toString_nat 42 @ ''_'' @ email admin0\<rparr>)
                       (users db0),
        auditLogs := auditLogs db0 @
          [(log_data ?req (uid admin0) ''USER_DELETE'' (uid admin0)
              [(''targetUser'', JStr (''deleted_'' @ toString_nat 42 @ ''_'' @ email admin0)),
               (''deletedBy'', JStr (email admin0))] ''HIGH'' ''SUCCESS'')\<lparr>timestamp := Some 42\<rparr>]\<rparr>)"
    using ne f by (intro delete_user_found) simp_all
  show ?thesis using adm v c sv by (simp add: r o)
qed

end
